theory Spec2Isabelle
  imports Main "HOL-Library.Word"
begin

unbundle bit_operations_syntax

section \<open>The EGTS transport-layer header (egts\_pkg.go)\<close>

subsection \<open>Data model\<close>

text \<open>Go's \<open>byte\<close> and \<open>uint8\<close> are the same 8-bit unsigned type; \<open>uint16\<close> is 16-bit.\<close>

type_synonym byte = "8 word"
type_synonym uint8 = "8 word"
type_synonym uint16 = "16 word"

text \<open>\<open>type EgtsPkgHeader struct\<close>, fields in declaration order (egts\_pkg.go:9-85).\<close>

record EgtsPkgHeader =
  PRV :: byte
  SKID :: byte
  PRF :: uint8
  RTE :: uint8
  ENA :: uint8
  CMP :: uint8
  PR :: uint8
  HL :: byte
  HE :: byte
  FDL :: uint16
  PID :: uint16
  PT :: byte
  PRA :: uint16
  RCA :: uint16
  TTL :: byte
  HCS :: byte

text \<open>
  Go's \<open>error\<close> values that \<open>ToBytes\<close> can return. \<open>InvalidField\<close> is the error of
  \<open>bitsToByte\<close>, which \<open>ToBytes\<close> returns unchanged (egts\_pkg.go:103-105);
  \<open>WriteError\<close> stands for an error of \<open>binary.Write\<close>.
\<close>

datatype error = InvalidField | WriteError

subsection \<open>Library calls\<close>

text \<open>
  \<open>binary.Write(buf, binary.LittleEndian, v)\<close> on a \<open>bytes.Buffer\<close>: appends the
  little-endian bytes of the fixed-size value \<open>v\<close> to the buffer and returns the error.
  For a \<open>byte\<close> and a \<open>uint16\<close> written to a \<open>bytes.Buffer\<close> the error is nil.
  The buffer is passed explicitly and returned updated.
\<close>

definition binary_Write_u8 :: "byte list \<Rightarrow> byte \<Rightarrow> byte list \<times> error option" where
  "binary_Write_u8 buf v = (buf @ [v], None)"

definition binary_Write_u16 :: "byte list \<Rightarrow> uint16 \<Rightarrow> byte list \<times> error option" where
  "binary_Write_u16 buf v = (buf @ [ucast v, ucast (drop_bit 8 v)], None)"

text \<open>
  The verb \<open>%0wb\<close> of \<open>fmt.Sprintf\<close> on an unsigned integer: the binary digits of the
  value, most significant first, with no leading zeros (\<open>0\<close> is \<open>"0"\<close>), padded on the left
  with \<open>'0'\<close> up to the minimum width \<open>w\<close>. A value with more digits than \<open>w\<close> is
  printed in full.
\<close>

definition bit_char :: "nat \<Rightarrow> char" where
  "bit_char d = (if d = 0 then CHR ''0'' else CHR ''1'')"

fun bin_digits :: "nat \<Rightarrow> string" where
  "bin_digits n = (if n < 2 then [bit_char n] else bin_digits (n div 2) @ [bit_char (n mod 2)])"

declare bin_digits.simps [simp del]

definition fmt_b :: "nat \<Rightarrow> uint8 \<Rightarrow> string" where
  "fmt_b w v = (let s = bin_digits (unat v) in replicate (w - length s) CHR ''0'' @ s)"

subsection \<open>The bit-string helper\<close>

text \<open>
  Modelled from the spec: \<open>bitsToByte\<close>, called at egts\_pkg.go:102 and defined in no file
  under src. The spec (4.2, Bit-Field Packing) describes the packing as a function of
  fields of total width exactly 8 bits into one byte, most-significant field first, that
  fails when a value does not fit its declared width; (4.1, 7) name the failure
  \<open>InvalidField\<close>; (9) says that the source detects the overflow after producing a
  malformed string. On the string that \<open>ToBytes\<close> passes, that is: a string of exactly
  eight binary digits is read most significant bit first, anything else is an error.
\<close>

fun bits_val :: "string \<Rightarrow> nat \<Rightarrow> nat option" where
  "bits_val [] acc = Some acc"
| "bits_val (c # cs) acc =
     (if c = CHR ''0'' then bits_val cs (2 * acc)
      else if c = CHR ''1'' then bits_val cs (2 * acc + 1)
      else None)"

definition bitsToByte :: "string \<Rightarrow> byte \<times> error option" where
  "bitsToByte s =
     (if length s \<noteq> 8 then (0, Some InvalidField)
      else case bits_val s 0 of
             None \<Rightarrow> (0, Some InvalidField)
           | Some n \<Rightarrow> (of_nat n, None))"

subsection \<open>CalcCRC8 and ToBytes\<close>

text \<open>
  \<open>func (h *EgtsPkgHeader) CalcCRC8() error\<close> (egts\_pkg.go:155-160): assigns the constant
  202 to the receiver's \<open>HCS\<close> and returns nil. The receiver is returned updated.
\<close>

definition CalcCRC8 :: "EgtsPkgHeader \<Rightarrow> error option \<times> EgtsPkgHeader" where
  "CalcCRC8 h = (None, h\<lparr>HCS := 202\<rparr>)"

text \<open>The argument of \<open>bitsToByte\<close>: \<open>fmt.Sprintf("%02b%01b%02b%01b%02b", PRF, RTE, ENA, CMP, PR)\<close>.\<close>

definition flagsByte :: "EgtsPkgHeader \<Rightarrow> string" where
  "flagsByte h = fmt_b 2 (PRF h) @ fmt_b 1 (RTE h) @ fmt_b 2 (ENA h) @ fmt_b 1 (CMP h) @ fmt_b 2 (PR h)"

text \<open>
  \<open>func (h *EgtsPkgHeader) ToBytes() ([]byte, error)\<close> (egts\_pkg.go:88-153). The result is
  Go's pair (slice, error) together with the receiver after the call. \<open>result\<close> is the
  empty slice until the last statement, and every error return hands back \<open>result\<close>.
\<close>

definition ToBytes :: "EgtsPkgHeader \<Rightarrow> (byte list \<times> error option) \<times> EgtsPkgHeader" where
  "ToBytes h =
    (let result = []; buf = [] in
     let (buf, err) = binary_Write_u8 buf (PRV h) in
     if err \<noteq> None then ((result, err), h) else
     let (buf, err) = binary_Write_u8 buf (SKID h) in
     if err \<noteq> None then ((result, err), h) else
     let (flagByte, err) = bitsToByte (flagsByte h) in
     if err \<noteq> None then ((result, err), h) else
     let (buf, err) = binary_Write_u8 buf flagByte in
     if err \<noteq> None then ((result, err), h) else
     let (buf, err) = binary_Write_u8 buf (HL h) in
     if err \<noteq> None then ((result, err), h) else
     let (buf, err) = binary_Write_u8 buf (HE h) in
     if err \<noteq> None then ((result, err), h) else
     let (buf, err) = binary_Write_u16 buf (FDL h) in
     if err \<noteq> None then ((result, err), h) else
     let (buf, err) = binary_Write_u16 buf (PID h) in
     if err \<noteq> None then ((result, err), h) else
     let (buf, err) = binary_Write_u8 buf (PT h) in
     if err \<noteq> None then ((result, err), h) else
     let (buf, err) = binary_Write_u16 buf (PRA h) in
     if err \<noteq> None then ((result, err), h) else
     let (buf, err) = binary_Write_u16 buf (RCA h) in
     if err \<noteq> None then ((result, err), h) else
     let (buf, err) = binary_Write_u8 buf (TTL h) in
     if err \<noteq> None then ((result, err), h) else
     let (err, h) = CalcCRC8 h in
     if err \<noteq> None then ((result, err), h) else
     let (buf, err) = binary_Write_u8 buf (HCS h) in
     if err \<noteq> None then ((result, err), h) else
     let result = buf in
     ((result, None), h))"

subsection \<open>Example headers\<close>

text \<open>
  The header of the spec's concrete scenario (section 8): \<open>PRV=1, SKID=0, PRF=0, RTE=0,
  ENA=0, CMP=0, PR=0, HE=0, PID=1, PT=1\<close>, with \<open>FDL=3\<close> and \<open>HL=11\<close>; the routing fields
  and \<open>HCS\<close> are Go's zero values.
\<close>

definition hdr_plain :: EgtsPkgHeader where
  "hdr_plain = \<lparr>PRV = 1, SKID = 0, PRF = 0, RTE = 0, ENA = 0, CMP = 0, PR = 0, HL = 11, HE = 0,
     FDL = 3, PID = 1, PT = 1, PRA = 0, RCA = 0, TTL = 0, HCS = 0\<rparr>"

text \<open>The spec's second scenario: the same with \<open>RTE=1, PRA=100, RCA=200, TTL=5, HL=14\<close>.\<close>

definition hdr_routed :: EgtsPkgHeader where
  "hdr_routed = hdr_plain\<lparr>RTE := 1, HL := 14, PRA := 100, RCA := 200, TTL := 5\<rparr>"

section \<open>Properties\<close>

subsection \<open>Auxiliary facts\<close>

text \<open>\<open>ToBytes\<close> in closed form: the only call that can fail is \<open>bitsToByte\<close>.\<close>

lemma ToBytes_eq:
  "ToBytes h =
     (let (flagByte, err) = bitsToByte (flagsByte h) in
      if err \<noteq> None then (([], err), h)
      else (([PRV h, SKID h, flagByte, HL h, HE h,
               ucast (FDL h), ucast (drop_bit 8 (FDL h)),
               ucast (PID h), ucast (drop_bit 8 (PID h)), PT h,
               ucast (PRA h), ucast (drop_bit 8 (PRA h)),
               ucast (RCA h), ucast (drop_bit 8 (RCA h)), TTL h, 202], None),
            h\<lparr>HCS := 202\<rparr>))"
  by (simp add: ToBytes_def binary_Write_u8_def binary_Write_u16_def CalcCRC8_def Let_def
      split: prod.split)

lemma bin_digits_small: "n < 2 \<Longrightarrow> bin_digits n = [bit_char n]"
  by (simp add: bin_digits.simps)

lemma bin_digits_two: "2 \<le> n \<Longrightarrow> n < 4 \<Longrightarrow> bin_digits n = [CHR ''1'', bit_char (n mod 2)]"
proof -
  assume a: "2 \<le> n" "n < 4"
  then have "n div 2 = 1" by simp
  with a show ?thesis
    by (subst bin_digits.simps) (simp add: bin_digits_small bit_char_def)
qed

lemma length_bin_digits_pos: "1 \<le> length (bin_digits n)"
  by (subst bin_digits.simps) simp

lemma length_bin_digits_ge2: "2 \<le> n \<Longrightarrow> 2 \<le> length (bin_digits n)"
  using length_bin_digits_pos [of "n div 2"] by (subst bin_digits.simps) simp

lemma length_bin_digits_ge3: "4 \<le> n \<Longrightarrow> 3 \<le> length (bin_digits n)"
  using length_bin_digits_ge2 [of "n div 2"] by (subst bin_digits.simps) simp

lemma length_fmt_b: "length (fmt_b w v) = max w (length (bin_digits (unat v)))"
  by (simp add: fmt_b_def Let_def)

lemma fmt_b1_in: "unat v < 2 \<Longrightarrow> fmt_b 1 v = [bit_char (unat v)]"
  by (simp add: fmt_b_def bin_digits_small)

lemma fmt_b2_in: "unat v < 4 \<Longrightarrow> fmt_b 2 v = [bit_char (unat v div 2), bit_char (unat v mod 2)]"
proof (cases "unat v < 2")
  case True
  then show ?thesis by (simp add: fmt_b_def bin_digits_small bit_char_def)
next
  case False
  assume "unat v < 4"
  with False have "unat v div 2 = 1" by simp
  with False \<open>unat v < 4\<close> show ?thesis
    by (simp add: fmt_b_def bin_digits_two bit_char_def)
qed

lemma bits_val_bit_char:
  "d < 2 \<Longrightarrow> bits_val (bit_char d # cs) acc = bits_val cs (2 * acc + d)"
proof -
  assume "d < 2"
  then consider "d = 0" | "d = 1" by linarith
  then show ?thesis by cases (simp_all add: bit_char_def)
qed

lemma flagsByte_in_range:
  assumes "unat (PRF h) < 4" "unat (RTE h) < 2" "unat (ENA h) < 4" "unat (CMP h) < 2" "unat (PR h) < 4"
  shows "flagsByte h =
    [bit_char (unat (PRF h) div 2), bit_char (unat (PRF h) mod 2), bit_char (unat (RTE h)),
     bit_char (unat (ENA h) div 2), bit_char (unat (ENA h) mod 2), bit_char (unat (CMP h)),
     bit_char (unat (PR h) div 2), bit_char (unat (PR h) mod 2)]"
  using assms by (simp add: flagsByte_def fmt_b1_in [simplified] fmt_b2_in)

lemma bitsToByte_in_range:
  assumes "unat (PRF h) < 4" "unat (RTE h) < 2" "unat (ENA h) < 4" "unat (CMP h) < 2" "unat (PR h) < 4"
  shows "bitsToByte (flagsByte h) =
    (of_nat (unat (PRF h) * 64 + unat (RTE h) * 32 + unat (ENA h) * 8 + unat (CMP h) * 4 + unat (PR h)), None)"
proof -
  have d: "unat (PRF h) div 2 < 2" "unat (ENA h) div 2 < 2" "unat (PR h) div 2 < 2"
    using assms by simp_all
  have v: "bits_val (flagsByte h) 0 =
      Some (unat (PRF h) * 64 + unat (RTE h) * 32 + unat (ENA h) * 8 + unat (CMP h) * 4 + unat (PR h))"
    using assms d
    by (simp add: flagsByte_in_range bits_val_bit_char del: bits_val.simps(2))
  have l: "length (flagsByte h) = 8"
    using assms by (simp add: flagsByte_in_range)
  show ?thesis by (simp add: bitsToByte_def l v)
qed

lemma length_flagsByte_overflow:
  assumes "4 \<le> unat (PRF h) \<or> 2 \<le> unat (RTE h) \<or> 4 \<le> unat (ENA h) \<or> 2 \<le> unat (CMP h) \<or> 4 \<le> unat (PR h)"
  shows "8 < length (flagsByte h)"
  using assms length_bin_digits_ge3 [of "unat (PRF h)"] length_bin_digits_ge2 [of "unat (RTE h)"]
    length_bin_digits_ge3 [of "unat (ENA h)"] length_bin_digits_ge2 [of "unat (CMP h)"]
    length_bin_digits_ge3 [of "unat (PR h)"]
  by (auto simp: flagsByte_def length_fmt_b)

lemma bitsToByte_overflow:
  assumes "4 \<le> unat (PRF h) \<or> 2 \<le> unat (RTE h) \<or> 4 \<le> unat (ENA h) \<or> 2 \<le> unat (CMP h) \<or> 4 \<le> unat (PR h)"
  shows "bitsToByte (flagsByte h) = (0, Some InvalidField)"
  using length_flagsByte_overflow [OF assms] by (simp add: bitsToByte_def)

lemma unat_ucast_lo: "unat (ucast (w :: 16 word) :: 8 word) = unat w mod 256"
  by (simp add: unsigned_ucast_eq take_bit_eq_mod)

lemma unat_ucast_hi: "unat (ucast (drop_bit 8 (w :: 16 word)) :: 8 word) = unat w div 256"
proof -
  have "unat (drop_bit 8 w) = unat w div 256"
    by (simp add: unat_drop_bit_eq drop_bit_eq_div unat_div)
  moreover have "unat w < 65536" using unsigned_less [of w, where 'a = nat] by simp
  ultimately show ?thesis by (simp add: unsigned_ucast_eq take_bit_eq_mod)
qed

lemma bitsToByte_zero_flags:
  "PRF h = 0 \<Longrightarrow> RTE h = 0 \<Longrightarrow> ENA h = 0 \<Longrightarrow> CMP h = 0 \<Longrightarrow> PR h = 0 \<Longrightarrow>
   bitsToByte (flagsByte h) = (0, None)"
  using bitsToByte_in_range [of h] by simp

text \<open>
  A successful call returns the sixteen bytes below and the receiver with \<open>HCS = 202\<close>.
\<close>

lemma ToBytes_ok:
  assumes "fst (ToBytes h) = (bs, None)"
  shows "bs = [PRV h, SKID h, fst (bitsToByte (flagsByte h)), HL h, HE h,
               ucast (FDL h), ucast (drop_bit 8 (FDL h)),
               ucast (PID h), ucast (drop_bit 8 (PID h)), PT h,
               ucast (PRA h), ucast (drop_bit 8 (PRA h)),
               ucast (RCA h), ucast (drop_bit 8 (RCA h)), TTL h, 202]"
    and "snd (ToBytes h) = h\<lparr>HCS := 202\<rparr>"
proof -
  obtain fb err where b: "bitsToByte (flagsByte h) = (fb, err)"
    by (cases "bitsToByte (flagsByte h)")
  with assms have e: "err = None"
    by (cases err) (simp_all add: ToBytes_eq)
  from b e assms show "bs = [PRV h, SKID h, fst (bitsToByte (flagsByte h)), HL h, HE h,
               ucast (FDL h), ucast (drop_bit 8 (FDL h)),
               ucast (PID h), ucast (drop_bit 8 (PID h)), PT h,
               ucast (PRA h), ucast (drop_bit 8 (PRA h)),
               ucast (RCA h), ucast (drop_bit 8 (RCA h)), TTL h, 202]"
    by (simp add: ToBytes_eq)
  from b e show "snd (ToBytes h) = h\<lparr>HCS := 202\<rparr>"
    by (simp add: ToBytes_eq)
qed

text \<open>
  With every bit field within its width the call succeeds.
\<close>

lemma ToBytes_in_range:
  assumes "unat (PRF h) < 4" "unat (RTE h) < 2" "unat (ENA h) < 4" "unat (CMP h) < 2" "unat (PR h) < 4"
  shows "ToBytes h =
     (([PRV h, SKID h,
        of_nat (unat (PRF h) * 64 + unat (RTE h) * 32 + unat (ENA h) * 8 + unat (CMP h) * 4 + unat (PR h)),
        HL h, HE h,
        ucast (FDL h), ucast (drop_bit 8 (FDL h)),
        ucast (PID h), ucast (drop_bit 8 (PID h)), PT h,
        ucast (PRA h), ucast (drop_bit 8 (PRA h)),
        ucast (RCA h), ucast (drop_bit 8 (RCA h)), TTL h, 202], None),
      h\<lparr>HCS := 202\<rparr>)"
  by (simp add: ToBytes_eq bitsToByte_in_range [OF assms])

text \<open>
  With a bit field beyond its width the formatted string has more than eight characters and
  the call fails, leaving the receiver as it was.
\<close>

lemma ToBytes_overflow:
  assumes "4 \<le> unat (PRF h) \<or> 2 \<le> unat (RTE h) \<or> 4 \<le> unat (ENA h) \<or> 2 \<le> unat (CMP h) \<or> 4 \<le> unat (PR h)"
  shows "ToBytes h = (([], Some InvalidField), h)"
  by (simp add: ToBytes_eq bitsToByte_overflow [OF assms])

subsection \<open>C1: the header checksum byte\<close>

text \<open>
  C1. The claim says that the last byte of the output is the CRC-8 of the bytes before it,
  and that two headers exist whose outputs end in different checksum bytes. In the code
  \<open>CalcCRC8\<close> assigns 202 whatever the header is: every non-empty output of \<open>ToBytes\<close> ends
  in 202. In particular the scenario header and the same header with \<open>PID = 2\<close>, whose
  first fifteen bytes differ in the byte at offset 7 only, both end in 202.
\<close>

theorem C1_HCS_is_constant_202:
  "(fst (fst (ToBytes h)) = [] \<or> last (fst (fst (ToBytes h))) = 202)
   \<and> fst (ToBytes hdr_plain) = ([1, 0, 0, 11, 0, 3, 0, 1, 0, 1, 0, 0, 0, 0, 0, 202], None)
   \<and> fst (ToBytes (hdr_plain\<lparr>PID := 2\<rparr>)) = ([1, 0, 0, 11, 0, 3, 0, 2, 0, 1, 0, 0, 0, 0, 0, 202], None)"
proof -
  have "fst (fst (ToBytes h)) = [] \<or> last (fst (fst (ToBytes h))) = 202"
    by (cases "bitsToByte (flagsByte h)") (simp add: ToBytes_eq)
  moreover have "fst (ToBytes hdr_plain) = ([1, 0, 0, 11, 0, 3, 0, 1, 0, 1, 0, 0, 0, 0, 0, 202], None)"
    by (simp add: ToBytes_eq bitsToByte_zero_flags hdr_plain_def)
  moreover have "fst (ToBytes (hdr_plain\<lparr>PID := 2\<rparr>)) = ([1, 0, 0, 11, 0, 3, 0, 2, 0, 1, 0, 0, 0, 0, 0, 202], None)"
    by (simp add: ToBytes_eq bitsToByte_zero_flags hdr_plain_def)
  ultimately show ?thesis by blast
qed

subsection \<open>C2: the routing block\<close>

text \<open>
  C2. The claim says that the bytes of \<open>PRA\<close>, \<open>RCA\<close> and \<open>TTL\<close> are in the output if and only
  if \<open>RTE = 1\<close>. The code writes them whatever \<open>RTE\<close> is: for the scenario header with
  \<open>RTE = 0\<close>, \<open>PRA = 258\<close>, \<open>RCA = 772\<close> and \<open>TTL = 5\<close> the output has sixteen bytes, and the five
  bytes between \<open>PT\<close> (offset 9) and \<open>HCS\<close> (offset 15) are \<open>02 01 04 03 05\<close>.
\<close>

theorem C2_routing_block_written_without_RTE:
  "RTE (hdr_plain\<lparr>PRA := 258, RCA := 772, TTL := 5\<rparr>) = 0
   \<and> fst (ToBytes (hdr_plain\<lparr>PRA := 258, RCA := 772, TTL := 5\<rparr>)) =
       ([1, 0, 0, 11, 0, 3, 0, 1, 0, 1, 2, 1, 4, 3, 5, 202], None)"
  by (simp add: ToBytes_eq bitsToByte_zero_flags hdr_plain_def)

subsection \<open>C3: the length of the output\<close>

text \<open>
  C3, as stated, fails: the claim gives 14 bytes for a header with \<open>RTE = 1\<close>. The header of
  the spec's routed scenario (\<open>RTE = 1, PRA = 100, RCA = 200, TTL = 5\<close>) is encoded in sixteen
  bytes: ten up to \<open>PT\<close>, five of the routing block, and \<open>HCS\<close>.
\<close>

theorem C3_length_counterexample:
  "RTE hdr_routed = 1
   \<and> fst (ToBytes hdr_routed) = ([1, 0, 32, 14, 0, 3, 0, 1, 0, 1, 100, 0, 200, 0, 5, 202], None)
   \<and> length (fst (fst (ToBytes hdr_routed))) \<noteq> 14"
  by (simp add: ToBytes_in_range hdr_routed_def hdr_plain_def)

text \<open>
  C3, amended. For every header with \<open>RTE = 1\<close> that \<open>ToBytes\<close> encodes successfully, the
  returned slice has 16 bytes: \<open>PRV\<close> to \<open>PT\<close> (10), \<open>PRA\<close>, \<open>RCA\<close>, \<open>TTL\<close> (5) and \<open>HCS\<close> (1).
\<close>

theorem C3_length_with_routing_block:
  "RTE h = 1 \<Longrightarrow> fst (ToBytes h) = (bs, None) \<Longrightarrow> length bs = 16"
  using ToBytes_ok(1) [of h bs] by simp

text \<open>
  The amended C3 at the routed scenario header.
\<close>

theorem C3_length_with_routing_block_witness:
  "RTE hdr_routed = 1
   \<and> fst (ToBytes hdr_routed) = ([1, 0, 32, 14, 0, 3, 0, 1, 0, 1, 100, 0, 200, 0, 5, 202], None)
   \<and> length [1, 0, 32, 14, 0, 3, 0, 1, 0, 1, 100, 0, 200, 0, 5, 202 :: byte] = 16"
proof -
  have a: "RTE hdr_routed = 1"
    by (simp add: hdr_routed_def)
  have b: "fst (ToBytes hdr_routed) = ([1, 0, 32, 14, 0, 3, 0, 1, 0, 1, 100, 0, 200, 0, 5, 202], None)"
    by (simp add: ToBytes_in_range hdr_routed_def hdr_plain_def)
  from C3_length_with_routing_block [OF a b] a b show ?thesis by simp
qed

subsection \<open>C4: bit fields beyond their width\<close>

text \<open>
  C4. For every header in which a bit field exceeds its width (\<open>PRF > 3\<close>, \<open>RTE > 1\<close>,
  \<open>ENA > 3\<close>, \<open>CMP > 1\<close> or \<open>PR > 3\<close>), \<open>ToBytes\<close> fails with \<open>InvalidField\<close> and returns no
  bytes; the value is not masked or truncated. The field is printed with more digits than
  its width, so the string handed to \<open>bitsToByte\<close> is longer than eight characters.
\<close>

theorem C4_bitfield_overflow_fails:
  "3 < PRF h \<or> 1 < RTE h \<or> 3 < ENA h \<or> 1 < CMP h \<or> 3 < PR h \<Longrightarrow>
   ToBytes h = (([], Some InvalidField), h)"
  by (rule ToBytes_overflow) (auto simp: word_less_nat_alt)

text \<open>
  C4 at \<open>PR = 4\<close>, the spec's example.
\<close>

theorem C4_bitfield_overflow_fails_witness:
  "3 < PR (hdr_plain\<lparr>PR := 4\<rparr>)
   \<and> ToBytes (hdr_plain\<lparr>PR := 4\<rparr>) = (([], Some InvalidField), hdr_plain\<lparr>PR := 4\<rparr>)"
proof -
  have a: "3 < PR (hdr_plain\<lparr>PR := 4\<rparr>)" by simp
  then have "3 < PRF (hdr_plain\<lparr>PR := 4\<rparr>) \<or> 1 < RTE (hdr_plain\<lparr>PR := 4\<rparr>) \<or> 3 < ENA (hdr_plain\<lparr>PR := 4\<rparr>)
      \<or> 1 < CMP (hdr_plain\<lparr>PR := 4\<rparr>) \<or> 3 < PR (hdr_plain\<lparr>PR := 4\<rparr>)" by blast
  from C4_bitfield_overflow_fails [OF this] a show ?thesis by blast
qed

subsection \<open>C5: the header length field\<close>

text \<open>
  C5, as stated, fails: the claim says that a header whose \<open>HL\<close> does not match its \<open>RTE\<close>
  is rejected. \<open>ToBytes\<close> never compares \<open>HL\<close> with anything: the scenario header with
  \<open>RTE = 0\<close> and \<open>HL = 99\<close> is encoded, with 99 at offset 3.
\<close>

theorem C5_HL_counterexample:
  "RTE (hdr_plain\<lparr>HL := 99\<rparr>) = 0 \<and> HL (hdr_plain\<lparr>HL := 99\<rparr>) \<noteq> 11
   \<and> fst (ToBytes (hdr_plain\<lparr>HL := 99\<rparr>)) = ([1, 0, 0, 99, 0, 3, 0, 1, 0, 1, 0, 0, 0, 0, 0, 202], None)"
  by (simp add: ToBytes_eq bitsToByte_zero_flags hdr_plain_def)

text \<open>
  C5, amended. \<open>ToBytes\<close> does not check \<open>HL\<close> against \<open>RTE\<close>: for every header whose bit fields
  are within their widths, whatever its \<open>HL\<close>, the call succeeds and the byte at offset 3 of
  the output is the header's \<open>HL\<close> as it is.
\<close>

theorem C5_HL_written_unchecked:
  "PRF h \<le> 3 \<Longrightarrow> RTE h \<le> 1 \<Longrightarrow> ENA h \<le> 3 \<Longrightarrow> CMP h \<le> 1 \<Longrightarrow> PR h \<le> 3 \<Longrightarrow>
   snd (fst (ToBytes h)) = None \<and> fst (fst (ToBytes h)) ! 3 = HL h"
proof -
  assume "PRF h \<le> 3" "RTE h \<le> 1" "ENA h \<le> 3" "CMP h \<le> 1" "PR h \<le> 3"
  then have "unat (PRF h) < 4" "unat (RTE h) < 2" "unat (ENA h) < 4" "unat (CMP h) < 2" "unat (PR h) < 4"
    by (simp_all add: word_le_nat_alt)
  then show ?thesis by (simp add: ToBytes_in_range)
qed

text \<open>
  The amended C5 at the scenario header with \<open>HL = 99\<close>.
\<close>

theorem C5_HL_written_unchecked_witness:
  "PRF (hdr_plain\<lparr>HL := 99\<rparr>) \<le> 3 \<and> RTE (hdr_plain\<lparr>HL := 99\<rparr>) \<le> 1 \<and> ENA (hdr_plain\<lparr>HL := 99\<rparr>) \<le> 3
   \<and> CMP (hdr_plain\<lparr>HL := 99\<rparr>) \<le> 1 \<and> PR (hdr_plain\<lparr>HL := 99\<rparr>) \<le> 3
   \<and> snd (fst (ToBytes (hdr_plain\<lparr>HL := 99\<rparr>))) = None
   \<and> fst (fst (ToBytes (hdr_plain\<lparr>HL := 99\<rparr>))) ! 3 = 99"
  using C5_HL_written_unchecked [of "hdr_plain\<lparr>HL := 99\<rparr>"]
  by (simp add: hdr_plain_def)

subsection \<open>C6: the flags byte\<close>

text \<open>
  C6. For every header whose bit fields are within their widths, \<open>ToBytes\<close> succeeds and the
  byte at offset 2 of its output packs the fields most significant first: its value is
  \<open>PRF * 64 + RTE * 32 + ENA * 8 + CMP * 4 + PR\<close>.
\<close>

theorem C6_flags_byte_packing:
  assumes "PRF h \<le> 3" "RTE h \<le> 1" "ENA h \<le> 3" "CMP h \<le> 1" "PR h \<le> 3"
  shows "snd (fst (ToBytes h)) = None
    \<and> unat (fst (fst (ToBytes h)) ! 2) =
        unat (PRF h) * 64 + unat (RTE h) * 32 + unat (ENA h) * 8 + unat (CMP h) * 4 + unat (PR h)"
proof -
  from assms have r: "unat (PRF h) < 4" "unat (RTE h) < 2" "unat (ENA h) < 4" "unat (CMP h) < 2" "unat (PR h) < 4"
    by (simp_all add: word_le_nat_alt)
  define n where "n = unat (PRF h) * 64 + unat (RTE h) * 32 + unat (ENA h) * 8 + unat (CMP h) * 4 + unat (PR h)"
  from r have "n < 256"
    unfolding n_def by linarith
  then have u: "unat (of_nat n :: byte) = n"
    by (simp add: unat_of_nat)
  have t: "ToBytes h =
     (([PRV h, SKID h, of_nat n, HL h, HE h,
        ucast (FDL h), ucast (drop_bit 8 (FDL h)),
        ucast (PID h), ucast (drop_bit 8 (PID h)), PT h,
        ucast (PRA h), ucast (drop_bit 8 (PRA h)),
        ucast (RCA h), ucast (drop_bit 8 (RCA h)), TTL h, 202], None),
      h\<lparr>HCS := 202\<rparr>)"
    unfolding n_def by (rule ToBytes_in_range [OF r])
  have "fst (fst (ToBytes h)) ! 2 = of_nat n"
    by (simp add: t)
  with u have "unat (fst (fst (ToBytes h)) ! 2) = n"
    by simp
  moreover have "snd (fst (ToBytes h)) = None"
    by (simp add: t)
  ultimately show ?thesis
    unfolding n_def by blast
qed

text \<open>
  C6 at \<open>PRF = 2, RTE = 1, ENA = 1, CMP = 1, PR = 3\<close>: the bits \<open>10 1 01 1 11\<close>, that is 175.
\<close>

theorem C6_flags_byte_packing_witness:
  "PRF (hdr_plain\<lparr>PRF := 2, RTE := 1, ENA := 1, CMP := 1, PR := 3\<rparr>) \<le> 3
   \<and> RTE (hdr_plain\<lparr>PRF := 2, RTE := 1, ENA := 1, CMP := 1, PR := 3\<rparr>) \<le> 1
   \<and> ENA (hdr_plain\<lparr>PRF := 2, RTE := 1, ENA := 1, CMP := 1, PR := 3\<rparr>) \<le> 3
   \<and> CMP (hdr_plain\<lparr>PRF := 2, RTE := 1, ENA := 1, CMP := 1, PR := 3\<rparr>) \<le> 1
   \<and> PR (hdr_plain\<lparr>PRF := 2, RTE := 1, ENA := 1, CMP := 1, PR := 3\<rparr>) \<le> 3
   \<and> snd (fst (ToBytes (hdr_plain\<lparr>PRF := 2, RTE := 1, ENA := 1, CMP := 1, PR := 3\<rparr>))) = None
   \<and> unat (fst (fst (ToBytes (hdr_plain\<lparr>PRF := 2, RTE := 1, ENA := 1, CMP := 1, PR := 3\<rparr>))) ! 2) = 175"
  using C6_flags_byte_packing [of "hdr_plain\<lparr>PRF := 2, RTE := 1, ENA := 1, CMP := 1, PR := 3\<rparr>"]
  by simp

subsection \<open>C7: the first ten bytes\<close>

text \<open>
  C7, as stated, fails: the claim speaks of every header, and a header with a bit field
  beyond its width has no output bytes at all. For the scenario header with \<open>PR = 4\<close> the
  call returns the empty slice and \<open>InvalidField\<close>.
\<close>

theorem C7_prefix_counterexample:
  "fst (ToBytes (hdr_plain\<lparr>PR := 4\<rparr>)) = ([], Some InvalidField)
   \<and> length (fst (fst (ToBytes (hdr_plain\<lparr>PR := 4\<rparr>)))) < 10"
proof -
  have "4 \<le> unat (PR (hdr_plain\<lparr>PR := 4\<rparr>))" by simp
  then show ?thesis by (simp add: ToBytes_overflow)
qed

text \<open>
  C7, amended. For every header whose bit fields are within their widths, and so for
  every value of its 16-bit \<open>PID\<close>, \<open>ToBytes\<close> succeeds and the first ten bytes of the output
  are, in order, \<open>PRV\<close>, \<open>SKID\<close>, the flags byte (of value
  \<open>PRF * 64 + RTE * 32 + ENA * 8 + CMP * 4 + PR\<close>), \<open>HL\<close>, \<open>HE\<close>, the low and the high byte of
  \<open>FDL\<close>, the low and the high byte of \<open>PID\<close>, and \<open>PT\<close>. Byte 7 is \<open>PID mod 256\<close> and byte 8 is
  \<open>PID div 256\<close>; the same holds of \<open>FDL\<close> at bytes 5 and 6.
\<close>

theorem C7_prefix_layout_in_range:
  assumes "PRF h \<le> 3" "RTE h \<le> 1" "ENA h \<le> 3" "CMP h \<le> 1" "PR h \<le> 3"
  shows "snd (fst (ToBytes h)) = None
    \<and> take 10 (fst (fst (ToBytes h))) =
        [PRV h, SKID h,
         of_nat (unat (PRF h) * 64 + unat (RTE h) * 32 + unat (ENA h) * 8 + unat (CMP h) * 4 + unat (PR h)),
         HL h, HE h,
         ucast (FDL h), ucast (drop_bit 8 (FDL h)),
         ucast (PID h), ucast (drop_bit 8 (PID h)), PT h]
    \<and> unat (fst (fst (ToBytes h)) ! 2) =
        unat (PRF h) * 64 + unat (RTE h) * 32 + unat (ENA h) * 8 + unat (CMP h) * 4 + unat (PR h)
    \<and> unat (fst (fst (ToBytes h)) ! 5) = unat (FDL h) mod 256
    \<and> unat (fst (fst (ToBytes h)) ! 6) = unat (FDL h) div 256
    \<and> unat (fst (fst (ToBytes h)) ! 7) = unat (PID h) mod 256
    \<and> unat (fst (fst (ToBytes h)) ! 8) = unat (PID h) div 256"
proof -
  from assms have r: "unat (PRF h) < 4" "unat (RTE h) < 2" "unat (ENA h) < 4" "unat (CMP h) < 2" "unat (PR h) < 4"
    by (simp_all add: word_le_nat_alt)
  define n where "n = unat (PRF h) * 64 + unat (RTE h) * 32 + unat (ENA h) * 8 + unat (CMP h) * 4 + unat (PR h)"
  define bs where "bs = fst (fst (ToBytes h))"
  from r have "n < 256"
    unfolding n_def by linarith
  then have u: "unat (of_nat n :: byte) = n"
    by (simp add: unat_of_nat)
  have t: "ToBytes h =
     (([PRV h, SKID h, of_nat n, HL h, HE h,
        ucast (FDL h), ucast (drop_bit 8 (FDL h)),
        ucast (PID h), ucast (drop_bit 8 (PID h)), PT h,
        ucast (PRA h), ucast (drop_bit 8 (PRA h)),
        ucast (RCA h), ucast (drop_bit 8 (RCA h)), TTL h, 202], None),
      h\<lparr>HCS := 202\<rparr>)"
    unfolding n_def by (rule ToBytes_in_range [OF r])
  have ok: "snd (fst (ToBytes h)) = None"
    by (simp add: t)
  have f: "bs ! 2 = of_nat n"
    unfolding bs_def by (simp add: t)
  have p: "take 10 bs = [PRV h, SKID h, of_nat n, HL h, HE h,
         ucast (FDL h), ucast (drop_bit 8 (FDL h)),
         ucast (PID h), ucast (drop_bit 8 (PID h)), PT h]"
    unfolding bs_def by (simp add: t)
  have lo: "bs ! 5 = ucast (FDL h)" "bs ! 7 = ucast (PID h)"
    unfolding bs_def by (simp_all add: t)
  have hi: "bs ! 6 = ucast (drop_bit 8 (FDL h))" "bs ! 8 = ucast (drop_bit 8 (PID h))"
    unfolding bs_def by (simp_all add: t)
  have v2: "unat (bs ! 2) = n"
    by (simp only: f u)
  have vlo: "unat (bs ! 5) = unat (FDL h) mod 256" "unat (bs ! 7) = unat (PID h) mod 256"
    by (simp_all only: lo unat_ucast_lo)
  have vhi: "unat (bs ! 6) = unat (FDL h) div 256" "unat (bs ! 8) = unat (PID h) div 256"
    by (simp_all only: hi unat_ucast_hi)
  from ok p v2 vlo vhi show ?thesis
    unfolding bs_def n_def by blast
qed

text \<open>
  The amended C7 at \<open>PRF = 2, RTE = 1, ENA = 1, CMP = 1, PR = 3\<close> and \<open>PID = 43981\<close>
  (hexadecimal ABCD): the flags byte is 175, bytes 7 and 8 are 205 (CD) and 171 (AB). The
  largest \<open>PID\<close>, 65535, is encoded as well, as 255 and 255.
\<close>

theorem C7_prefix_layout_in_range_witness:
  "PRF (hdr_plain\<lparr>PRF := 2, RTE := 1, ENA := 1, CMP := 1, PR := 3, PID := 43981\<rparr>) \<le> 3
   \<and> RTE (hdr_plain\<lparr>PRF := 2, RTE := 1, ENA := 1, CMP := 1, PR := 3, PID := 43981\<rparr>) \<le> 1
   \<and> ENA (hdr_plain\<lparr>PRF := 2, RTE := 1, ENA := 1, CMP := 1, PR := 3, PID := 43981\<rparr>) \<le> 3
   \<and> CMP (hdr_plain\<lparr>PRF := 2, RTE := 1, ENA := 1, CMP := 1, PR := 3, PID := 43981\<rparr>) \<le> 1
   \<and> PR (hdr_plain\<lparr>PRF := 2, RTE := 1, ENA := 1, CMP := 1, PR := 3, PID := 43981\<rparr>) \<le> 3
   \<and> snd (fst (ToBytes (hdr_plain\<lparr>PRF := 2, RTE := 1, ENA := 1, CMP := 1, PR := 3, PID := 43981\<rparr>))) = None
   \<and> take 10 (fst (fst (ToBytes (hdr_plain\<lparr>PRF := 2, RTE := 1, ENA := 1, CMP := 1, PR := 3, PID := 43981\<rparr>)))) =
       [1, 0, 175, 11, 0, 3, 0, 205, 171, 1]
   \<and> (205 :: nat) = 43981 mod 256 \<and> (171 :: nat) = 43981 div 256
   \<and> snd (fst (ToBytes (hdr_plain\<lparr>PID := 65535\<rparr>))) = None
   \<and> take 10 (fst (fst (ToBytes (hdr_plain\<lparr>PID := 65535\<rparr>)))) = [1, 0, 0, 11, 0, 3, 0, 255, 255, 1]"
proof -
  have a: "ToBytes (hdr_plain\<lparr>PRF := 2, RTE := 1, ENA := 1, CMP := 1, PR := 3, PID := 43981\<rparr>) =
      (([1, 0, 175, 11, 0, 3, 0, 205, 171, 1, 0, 0, 0, 0, 0, 202], None),
       hdr_plain\<lparr>PRF := 2, RTE := 1, ENA := 1, CMP := 1, PR := 3, PID := 43981, HCS := 202\<rparr>)"
    by (simp add: ToBytes_in_range hdr_plain_def)
  have b: "ToBytes (hdr_plain\<lparr>PID := 65535\<rparr>) =
      (([1, 0, 0, 11, 0, 3, 0, 255, 255, 1, 0, 0, 0, 0, 0, 202], None), hdr_plain\<lparr>PID := 65535, HCS := 202\<rparr>)"
    by (simp add: ToBytes_eq bitsToByte_zero_flags hdr_plain_def)
  from C7_prefix_layout_in_range [of "hdr_plain\<lparr>PRF := 2, RTE := 1, ENA := 1, CMP := 1, PR := 3, PID := 43981\<rparr>"]
    C7_prefix_layout_in_range [of "hdr_plain\<lparr>PID := 65535\<rparr>"]
  show ?thesis by (simp add: a b)
qed

subsection \<open>C9: the effect on the receiver\<close>

text \<open>
  C9. After every successful call the receiver's \<open>HCS\<close> has been overwritten with the
  checksum value that \<open>CalcCRC8\<close> computed, which is 202 whatever \<open>HCS\<close> held before the call
  and is also the last byte of the output; every other field of the receiver is as it was
  before the call.
\<close>

theorem C9_receiver_frame:
  assumes "fst (ToBytes h) = (bs, None)"
  shows "HCS (snd (ToBytes h)) = 202 \<and> last bs = 202
    \<and> snd (ToBytes h) = h\<lparr>HCS := 202\<rparr>
    \<and> snd (ToBytes h) = h\<lparr>HCS := last bs\<rparr> \<and> snd (ToBytes h) = snd (CalcCRC8 h)
    \<and> PRV (snd (ToBytes h)) = PRV h \<and> SKID (snd (ToBytes h)) = SKID h
    \<and> PRF (snd (ToBytes h)) = PRF h \<and> RTE (snd (ToBytes h)) = RTE h
    \<and> ENA (snd (ToBytes h)) = ENA h \<and> CMP (snd (ToBytes h)) = CMP h
    \<and> PR (snd (ToBytes h)) = PR h \<and> HL (snd (ToBytes h)) = HL h
    \<and> HE (snd (ToBytes h)) = HE h \<and> FDL (snd (ToBytes h)) = FDL h
    \<and> PID (snd (ToBytes h)) = PID h \<and> PT (snd (ToBytes h)) = PT h
    \<and> PRA (snd (ToBytes h)) = PRA h \<and> RCA (snd (ToBytes h)) = RCA h
    \<and> TTL (snd (ToBytes h)) = TTL h"
  by (simp add: ToBytes_ok [OF assms] CalcCRC8_def)

text \<open>
  C9 at the scenario header with \<open>HCS = 77\<close> before the call: the call succeeds, and
  afterwards \<open>HCS\<close> is 202 and nothing else has changed.
\<close>

theorem C9_receiver_frame_witness:
  "fst (ToBytes (hdr_plain\<lparr>HCS := 77\<rparr>)) = ([1, 0, 0, 11, 0, 3, 0, 1, 0, 1, 0, 0, 0, 0, 0, 202], None)
   \<and> HCS (hdr_plain\<lparr>HCS := 77\<rparr>) = 77
   \<and> HCS (snd (ToBytes (hdr_plain\<lparr>HCS := 77\<rparr>))) = 202
   \<and> snd (ToBytes (hdr_plain\<lparr>HCS := 77\<rparr>)) = hdr_plain\<lparr>HCS := 202\<rparr>"
proof -
  have a: "fst (ToBytes (hdr_plain\<lparr>HCS := 77\<rparr>)) = ([1, 0, 0, 11, 0, 3, 0, 1, 0, 1, 0, 0, 0, 0, 0, 202], None)"
    by (simp add: ToBytes_eq bitsToByte_zero_flags hdr_plain_def)
  from C9_receiver_frame [OF a] a show ?thesis by simp
qed

subsection \<open>C10: the slice returned with an error\<close>

text \<open>
  C10. Whenever \<open>ToBytes\<close> returns a non-nil error, the slice it returns is empty.
\<close>

theorem C10_error_returns_empty_slice:
  "snd (fst (ToBytes h)) \<noteq> None \<Longrightarrow> fst (fst (ToBytes h)) = []"
  by (cases "bitsToByte (flagsByte h)") (simp add: ToBytes_eq split: if_splits)

text \<open>
  C10 at \<open>RTE = 2\<close>, where the call fails.
\<close>

theorem C10_error_returns_empty_slice_witness:
  "snd (fst (ToBytes (hdr_plain\<lparr>RTE := 2\<rparr>))) \<noteq> None \<and> fst (fst (ToBytes (hdr_plain\<lparr>RTE := 2\<rparr>))) = []"
proof -
  have "2 \<le> unat (RTE (hdr_plain\<lparr>RTE := 2\<rparr>))" by simp
  then have a: "snd (fst (ToBytes (hdr_plain\<lparr>RTE := 2\<rparr>))) \<noteq> None"
    by (simp add: ToBytes_overflow)
  from C10_error_returns_empty_slice [OF a] a show ?thesis by simp
qed

end
